theory Spec2Isabelle
  imports Main
begin

section \<open>The image captioning reader of loader\_hub/file/image\_blip2/base.py\<close>

text \<open>
  The class \<open>ImageVisionLLMReader\<close> has a constructor and one method, \<open>load_data\<close>.
  Both are thin adapters over external libraries (torch, transformers, PIL, the document
  schema of the host framework). The libraries are not part of the repository: what they
  return is a parameter of the model (the record \<open>env\<close>), and every call into them is
  written to a trace, so that the order of the calls can be stated. Every call can raise.
\<close>

subsection \<open>Python values and exceptions\<close>

text \<open>The two values \<open>torch.float16\<close> and \<open>torch.float32\<close> the constructor chooses between.\<close>

datatype dtype = float16 | float32

text \<open>
  The values held by attributes and dictionaries. \<open>PObj\<close> is a handle of an opaque
  object (a processor, a model, a batch of tensors). A dictionary is the list of its
  items; a lookup takes the first item of a key.
\<close>

datatype pyval =
    PNone
  | PBool bool
  | PStr string
  | PDtype dtype
  | PObj nat
  | PDict "(string \<times> pyval) list"

datatype error =
    ImportError string
  | ImportError_no_name string string
  | ModuleNotFoundError string
  | AttributeError string
  | KeyError string
  | TypeError
  | IndexError
  | FileNotFoundError
  | UnidentifiedImageError
  | OSError
  | RuntimeError

text \<open>
  \<open>ImportError msg\<close> is an \<open>ImportError\<close> raised by the source with the message \<open>msg\<close>.
  \<open>ImportError_no_name n m\<close> is the \<open>ImportError\<close> Python raises for \<open>from m import n\<close>
  when the module \<open>m\<close> is found and has no name \<open>n\<close>. \<open>ModuleNotFoundError p\<close> is the
  subclass Python raises when the package or module \<open>p\<close> is not found.
\<close>

type_synonym path = string

text \<open>A PIL image: its \<open>mode\<close> attribute and its content.\<close>

record pil_image =
  mode :: string
  pixels :: "nat list"

text \<open>
  The record \<open>ImageDocument\<close> of the host framework. The source builds it with the
  keywords \<open>text\<close> and \<open>image\<close> only, so every other field of the schema keeps its
  default; \<open>extra_info\<close>, whose default is \<open>None\<close>, is the one kept here.
\<close>

record image_document =
  doc_text :: "string option"
  doc_image :: "string option"
  doc_extra_info :: "(string \<times> pyval) list option"

definition ImageDocument :: "string option \<Rightarrow> string option \<Rightarrow> image_document" where
  "ImageDocument t i = \<lparr>doc_text = t, doc_image = i, doc_extra_info = None\<rparr>"

text \<open>
  What a call of \<open>load_data\<close> hands back. The annotation of the method promises a list
  of documents; Python does not check it, so the value carries its own shape.
\<close>

datatype retval = PyDocument image_document | PyList "image_document list"

fun is_list :: "retval \<Rightarrow> bool" where
  "is_list (PyList _) = True"
| "is_list (PyDocument _) = False"

subsection \<open>The environment and the trace\<close>

text \<open>
  One event for each call that leaves the file. The serialisation and the call of the
  processor record the arguments they were given.
\<close>

datatype event =
    Import string
  | CudaIsAvailable
  | ProcessorFromPretrained string
  | ModelFromPretrained string dtype
  | ImageOpen path
  | ImageConvert string
  | Img2B64 pil_image
  | ModelTo
  | ProcessorCall pyval pil_image pyval
  | InputsTo
  | ModelGenerate
  | ProcessorDecode

fun is_import :: "event \<Rightarrow> bool" where
  "is_import (Import _) = True"
| "is_import _ = False"

fun is_download :: "event \<Rightarrow> bool" where
  "is_download (ProcessorFromPretrained _) = True"
| "is_download (ModelFromPretrained _ _) = True"
| "is_download _ = False"

fun is_image_io :: "event \<Rightarrow> bool" where
  "is_image_io (ImageOpen _) = True"
| "is_image_io (ImageConvert _) = True"
| "is_image_io (Img2B64 _) = True"
| "is_image_io _ = False"

fun is_captioning :: "event \<Rightarrow> bool" where
  "is_captioning ModelTo = True"
| "is_captioning (ProcessorCall _ _ _) = True"
| "is_captioning InputsTo = True"
| "is_captioning ModelGenerate = True"
| "is_captioning ProcessorDecode = True"
| "is_captioning _ = False"

text \<open>
  Everything outside the file. \<open>importable e m\<close> says that an import from the module
  \<open>m\<close> succeeds; \<open>found e p\<close> says that the package or module \<open>p\<close> is found, and
  decides which error an import that does not succeed raises. \<open>class_attrs\<close> holds the data attributes that the class hierarchy defines
  outside this file (the base class \<open>BaseReader\<close> is imported, not defined here); the
  class of the file itself defines none. The other fields are the library calls of the
  source, one field for each call.
\<close>

record env =
  importable :: "string \<Rightarrow> bool"
  found :: "string \<Rightarrow> bool"
  class_attrs :: "string \<Rightarrow> pyval option"
  cuda_is_available :: bool
  Blip2Processor_from_pretrained :: "string \<Rightarrow> error + pyval"
  Blip2ForConditionalGeneration_from_pretrained :: "string \<Rightarrow> dtype \<Rightarrow> error + pyval"
  Image_open :: "path \<Rightarrow> error + pil_image"
  image_convert :: "pil_image \<Rightarrow> string \<Rightarrow> error + pil_image"
  img_2_b64 :: "pil_image \<Rightarrow> error + string"
  model_to :: "pyval \<Rightarrow> pyval \<Rightarrow> error + unit"
  processor_call :: "pyval \<Rightarrow> pil_image \<Rightarrow> pyval \<Rightarrow> error + pyval"
  inputs_to :: "pyval \<Rightarrow> pyval \<Rightarrow> pyval \<Rightarrow> error + pyval"
  model_generate :: "pyval \<Rightarrow> pyval \<Rightarrow> error + nat list list"
  processor_decode :: "pyval \<Rightarrow> nat list \<Rightarrow> error + string"

text \<open>
  The state a method runs in: the attribute dictionary of \<open>self\<close> and the trace of the
  external calls made so far.
\<close>

record state =
  self :: "string \<Rightarrow> pyval option"
  trace :: "event list"

type_synonym 'a py = "state \<Rightarrow> (error + 'a) \<times> state"

definition ret :: "'a \<Rightarrow> 'a py" where
  "ret x s = (Inr x, s)"

definition raise :: "error \<Rightarrow> 'a py" where
  "raise e s = (Inl e, s)"

definition lift :: "error + 'a \<Rightarrow> 'a py" where
  "lift r s = (r, s)"

text \<open>Sequencing: an exception of the first statement ends the method.\<close>

definition andthen :: "'a py \<Rightarrow> ('a \<Rightarrow> 'b py) \<Rightarrow> 'b py" where
  "andthen m f s = (case m s of (Inl e, s') \<Rightarrow> (Inl e, s') | (Inr x, s') \<Rightarrow> f x s')"

definition emit :: "event \<Rightarrow> unit py" where
  "emit ev s = (Inr (), s\<lparr>trace := trace s @ [ev]\<rparr>)"

text \<open>A call into a library: it is recorded, then it returns or raises.\<close>

definition ext :: "event \<Rightarrow> error + 'a \<Rightarrow> 'a py" where
  "ext ev r = andthen (emit ev) (\<lambda>_. lift r)"

text \<open>
  Attribute access \<open>self.name\<close>: the instance dictionary first, then the class
  hierarchy, else \<open>AttributeError\<close>. Assignment \<open>self.name = v\<close> writes the instance
  dictionary.
\<close>

definition getattr :: "env \<Rightarrow> string \<Rightarrow> pyval py" where
  "getattr e name s =
     (case self s name of
        Some v \<Rightarrow> (Inr v, s)
      | None \<Rightarrow>
          (case class_attrs e name of
             Some v \<Rightarrow> (Inr v, s)
           | None \<Rightarrow> (Inl (AttributeError name), s)))"

definition setattr :: "string \<Rightarrow> pyval \<Rightarrow> unit py" where
  "setattr name v s = (Inr (), s\<lparr>self := (self s)(name \<mapsto> v)\<rparr>)"

text \<open>Subscription \<open>d[k]\<close>.\<close>

fun getitem :: "pyval \<Rightarrow> string \<Rightarrow> error + pyval" where
  "getitem (PDict kvs) k =
     (case map_of kvs k of None \<Rightarrow> Inl (KeyError k) | Some v \<Rightarrow> Inr v)"
| "getitem _ k = Inl TypeError"

text \<open>The truth value an \<open>if\<close> statement gives a value.\<close>

fun truthy :: "pyval \<Rightarrow> bool" where
  "truthy PNone = False"
| "truthy (PBool b) = b"
| "truthy (PStr s) = (s \<noteq> [])"
| "truthy (PDict kvs) = (kvs \<noteq> [])"
| "truthy _ = True"

text \<open>
  The packages on a dotted module path, outermost first: \<open>a.b.c\<close> gives \<open>a\<close>, \<open>a.b\<close>,
  \<open>a.b.c\<close>.
\<close>

fun packages_from :: "string \<Rightarrow> string \<Rightarrow> string list" where
  "packages_from acc [] = [acc]"
| "packages_from acc (c # cs) =
     (if c = CHR ''.'' then acc # packages_from (acc @ [c]) cs
      else packages_from (acc @ [c]) cs)"

definition packages :: "string \<Rightarrow> string list" where
  "packages m = packages_from [] m"

text \<open>
  The error of a statement \<open>from m import n\<close> that does not succeed: Python imports the
  packages of the path from the outside in and names the first one it does not find;
  when all are found, the module lacks the name.
\<close>

definition import_failure :: "env \<Rightarrow> string \<Rightarrow> string \<Rightarrow> error" where
  "import_failure e m n =
     (case find (\<lambda>p. \<not> found e p) (packages m) of
        Some p \<Rightarrow> ModuleNotFoundError p
      | None \<Rightarrow> ImportError_no_name n m)"

text \<open>A statement \<open>from m import n\<close> inside a function body.\<close>

definition import_stmt :: "env \<Rightarrow> string \<Rightarrow> string \<Rightarrow> unit py" where
  "import_stmt e m n =
     andthen (emit (Import m))
       (\<lambda>_. if importable e m then ret () else raise (import_failure e m n))"

text \<open>
  \<open>try: import name / except ImportError: raise ImportError(msg)\<close>, the form of the
  four checks of the constructor. The handler catches every \<open>ImportError\<close>, whatever
  its cause, so the error raised is the same for each.
\<close>

definition try_import :: "env \<Rightarrow> string \<Rightarrow> string \<Rightarrow> unit py" where
  "try_import e name msg =
     andthen (emit (Import name))
       (\<lambda>_. if importable e name then ret () else raise (ImportError msg))"

definition torch_cuda_is_available :: "env \<Rightarrow> bool py" where
  "torch_cuda_is_available e = ext CudaIsAvailable (Inr (cuda_is_available e))"

subsection \<open>The constructor\<close>

definition default_prompt :: string where
  "default_prompt = ''Question: describe what you see in this image. Answer:''"

definition hub_name :: string where
  "hub_name = ''Salesforce/blip2-opt-2.7b''"

text \<open>The body of \<open>__init__\<close>, lines 22 to 58.\<close>

definition init :: "env \<Rightarrow> (string \<times> pyval) list option \<Rightarrow> bool \<Rightarrow> string \<Rightarrow> unit py" where
  "init e parser_config keep_image prompt =
     andthen
       (case parser_config of
          None \<Rightarrow>
            andthen (try_import e ''torch''
              ''install pytorch to use the model: `pip install torch`'') (\<lambda>_.
            andthen (try_import e ''transformers''
              ''transformers is required for using BLIP2 model: `pip install transformers`'') (\<lambda>_.
            andthen (try_import e ''sentencepiece''
              ''sentencepiece is required for using BLIP2 model: `pip install sentencepiece`'') (\<lambda>_.
            andthen (try_import e ''PIL''
              ''PIL is required to read image files: `pip install Pillow`'') (\<lambda>_.
            andthen (torch_cuda_is_available e) (\<lambda>c1.
            andthen (torch_cuda_is_available e) (\<lambda>c2.
            andthen (ext (ProcessorFromPretrained hub_name)
              (Blip2Processor_from_pretrained e hub_name)) (\<lambda>processor.
            andthen (ext (ModelFromPretrained hub_name (if c2 then float16 else float32))
              (Blip2ForConditionalGeneration_from_pretrained e hub_name
                 (if c2 then float16 else float32))) (\<lambda>model.
            ret [(''processor'', processor), (''model'', model),
                 (''device'', PStr (if c1 then ''cuda'' else ''cpu'')),
                 (''dtype'', PDtype (if c2 then float16 else float32))]))))))))
        | Some cfg \<Rightarrow> ret cfg)
       (\<lambda>parser_config.
          andthen (setattr ''_parser_config'' (PDict parser_config)) (\<lambda>_.
          andthen (setattr ''_keep_image'' (PBool keep_image)) (\<lambda>_.
          setattr ''_prompt'' (PStr prompt))))"

text \<open>
  The call \<open>ImageVisionLLMReader(parser_config, keep_image, prompt)\<close>: a fresh instance
  with no attribute is initialised; the caller gets the instance, or the exception and
  no instance. The second component is the trace of the construction.
\<close>

definition ImageVisionLLMReader ::
    "env \<Rightarrow> (string \<times> pyval) list option \<Rightarrow> bool \<Rightarrow> string
      \<Rightarrow> (error + (string \<Rightarrow> pyval option)) \<times> event list" where
  "ImageVisionLLMReader e parser_config keep_image prompt =
     (case init e parser_config keep_image prompt \<lparr>self = Map.empty, trace = []\<rparr> of
        (Inl err, s) \<Rightarrow> (Inl err, trace s)
      | (Inr _, s) \<Rightarrow> (Inr (self s), trace s))"

subsection \<open>The method load\_data\<close>

text \<open>
  The body of \<open>load_data\<close> is written as the source's comments divide it. Lines 66
  to 69, under the comment \<open>load document image\<close>: the image is opened and, when its
  mode is not \<open>RGB\<close>, converted.
\<close>

definition load_document_image :: "env \<Rightarrow> path \<Rightarrow> pil_image py" where
  "load_document_image e file =
     andthen (ext (ImageOpen file) (Image_open e file)) (\<lambda>image0.
     if mode image0 \<noteq> ''RGB''
     then ext (ImageConvert ''RGB'') (image_convert e image0 ''RGB'')
     else ret image0)"

text \<open>
  Lines 71 to 74, under the comment \<open>Encode image into base64 string and keep in
  document\<close>: \<open>image_str\<close> starts as \<open>None\<close> and is set when \<open>self._keep_image\<close> is
  true.
\<close>

definition encode_image :: "env \<Rightarrow> pil_image \<Rightarrow> string option py" where
  "encode_image e image0 =
     andthen (getattr e ''_keep_image'') (\<lambda>keep.
     if truthy keep
     then andthen (ext (Img2B64 image0) (img_2_b64 e image0)) (\<lambda>b. ret (Some b))
     else ret None)"

text \<open>
  Lines 76 to 89, under the comments \<open>Parse image into text\<close> and \<open>unconditional image
  captioning\<close>. The configuration is read through the attribute \<open>parser_config\<close>, once
  for each of the four keys; the prompt through \<open>_prompt\<close>.
\<close>

definition parse_image :: "env \<Rightarrow> pil_image \<Rightarrow> string py" where
  "parse_image e image0 =
     andthen (getattr e ''parser_config'') (\<lambda>pc1.
     andthen (lift (getitem pc1 ''model'')) (\<lambda>model.
     andthen (getattr e ''parser_config'') (\<lambda>pc2.
     andthen (lift (getitem pc2 ''processor'')) (\<lambda>processor.
     andthen (getattr e ''parser_config'') (\<lambda>pc3.
     andthen (lift (getitem pc3 ''device'')) (\<lambda>device.
     andthen (getattr e ''parser_config'') (\<lambda>pc4.
     andthen (lift (getitem pc4 ''dtype'')) (\<lambda>dtype.
     andthen (ext ModelTo (model_to e model device)) (\<lambda>_.
     andthen (getattr e ''_prompt'') (\<lambda>prompt.
     andthen (ext (ProcessorCall processor image0 prompt)
              (processor_call e processor image0 prompt)) (\<lambda>inputs0.
     andthen (ext InputsTo (inputs_to e inputs0 device dtype)) (\<lambda>inputs.
     andthen (ext ModelGenerate (model_generate e model inputs)) (\<lambda>out.
     andthen (lift (case out of [] \<Rightarrow> Inl IndexError | o0 # _ \<Rightarrow> Inr o0)) (\<lambda>out0.
     ext ProcessorDecode (processor_decode e processor out0)))))))))))))))"

text \<open>
  The whole method, lines 62 to 94: the two imports, the three blocks, the returned
  \<open>ImageDocument\<close>. The argument \<open>extra_info\<close> is not read.
\<close>

definition load_data :: "env \<Rightarrow> path \<Rightarrow> (string \<times> pyval) list option \<Rightarrow> retval py" where
  "load_data e file extra_info =
     andthen (import_stmt e ''PIL'' ''Image'') (\<lambda>_.
     andthen (import_stmt e ''gpt_index.img_utils'' ''img_2_b64'') (\<lambda>_.
     andthen (load_document_image e file) (\<lambda>image0.
     andthen (encode_image e image0) (\<lambda>image_str.
     andthen (parse_image e image0) (\<lambda>text_str.
     ret (PyDocument (ImageDocument (Some text_str) image_str)))))))"

text \<open>
  The trace a computation adds to a state holds only events that satisfy \<open>P\<close>.
\<close>

definition emits :: "(event \<Rightarrow> bool) \<Rightarrow> 'a py \<Rightarrow> state \<Rightarrow> bool" where
  "emits P m s =
     (take (length (trace s)) (trace (snd (m s))) = trace s \<and>
      list_all P (drop (length (trace s)) (trace (snd (m s)))))"

subsection \<open>Concrete environments\<close>

text \<open>
  A configuration with the four keys, and an environment in which every module is
  found, the path \<open>cat.png\<close> opens as an RGB image, \<open>scan.png\<close> as a greyscale image
  (mode \<open>L\<close>) and nothing else opens, and the class hierarchy supplies an attribute
  \<open>parser_config\<close>. They serve to run the definitions on concrete inputs.
\<close>

definition example_config :: "(string \<times> pyval) list" where
  "example_config =
     [(''processor'', PObj 1), (''model'', PObj 2), (''device'', PStr ''cpu''),
      (''dtype'', PDtype float32)]"

definition example_env :: env where
  "example_env =
     \<lparr>importable = (\<lambda>_. True),
      found = (\<lambda>_. True),
      class_attrs = [''parser_config'' \<mapsto> PDict example_config],
      cuda_is_available = False,
      Blip2Processor_from_pretrained = (\<lambda>_. Inr (PObj 1)),
      Blip2ForConditionalGeneration_from_pretrained = (\<lambda>_ _. Inr (PObj 2)),
      Image_open = (\<lambda>f. if f = ''cat.png'' then Inr \<lparr>mode = ''RGB'', pixels = [255, 0, 0]\<rparr>
                        else if f = ''scan.png'' then Inr \<lparr>mode = ''L'', pixels = [7]\<rparr>
                        else Inl UnidentifiedImageError),
      image_convert = (\<lambda>img m. Inr \<lparr>mode = m, pixels = pixels img @ pixels img @ pixels img\<rparr>),
      img_2_b64 = (\<lambda>img. Inr (if mode img = ''RGB'' then ''UkdC'' else ''TA=='')),
      model_to = (\<lambda>_ _. Inr ()),
      processor_call = (\<lambda>_ _ _. Inr (PObj 3)),
      inputs_to = (\<lambda>_ _ _. Inr (PObj 4)),
      model_generate = (\<lambda>_ _. Inr [[2, 5, 9]]),
      processor_decode = (\<lambda>_ _. Inr ''a red square'')\<rparr>"

text \<open>The attributes of a reader built from \<open>example_config\<close> and the default prompt.\<close>

definition example_reader :: "bool \<Rightarrow> string \<Rightarrow> pyval option" where
  "example_reader k =
     [''_parser_config'' \<mapsto> PDict example_config, ''_keep_image'' \<mapsto> PBool k,
      ''_prompt'' \<mapsto> PStr default_prompt]"

text \<open>The same environment with a class hierarchy that defines no data attribute.\<close>

definition plain_env :: env where
  "plain_env = example_env\<lparr>class_attrs := Map.empty\<rparr>"

text \<open>The same environment with exactly one module missing.\<close>

definition env_without :: "string \<Rightarrow> env" where
  "env_without name =
     example_env\<lparr>importable := (\<lambda>n. n \<noteq> name), found := (\<lambda>n. n \<noteq> name)\<rparr>"

section \<open>Properties\<close>

subsection \<open>Sequencing\<close>

lemma andthen_Inr:
  "andthen m f s = (Inr v, s') \<longleftrightarrow> (\<exists>x s1. m s = (Inr x, s1) \<and> f x s1 = (Inr v, s'))"
  by (auto simp: andthen_def split: prod.splits sum.splits)

lemma andthen_step: "m s = (Inr x, s1) \<Longrightarrow> andthen m f s = f x s1"
  by (simp add: andthen_def)

lemma andthen_stop: "m s = (Inl err, s1) \<Longrightarrow> andthen m f s = (Inl err, s1)"
  by (simp add: andthen_def)

lemma ret_Inr: "ret x s = (Inr y, s') \<longleftrightarrow> y = x \<and> s' = s"
  by (auto simp: ret_def)

lemma raise_Inr: "raise err s \<noteq> (Inr y, s')"
  by (simp add: raise_def)

lemma lift_Inr: "lift r s = (Inr y, s') \<longleftrightarrow> r = Inr y \<and> s' = s"
  by (auto simp: lift_def)

lemma ext_eq: "ext ev r s = (r, s\<lparr>trace := trace s @ [ev]\<rparr>)"
  by (cases r) (simp_all add: ext_def andthen_def emit_def lift_def)

lemma import_stmt_eq:
  "import_stmt e m n s =
     (if importable e m then Inr () else Inl (import_failure e m n),
      s\<lparr>trace := trace s @ [Import m]\<rparr>)"
  by (simp add: import_stmt_def andthen_def emit_def ret_def raise_def)

lemma try_import_eq:
  "try_import e name msg s =
     (if importable e name then Inr () else Inl (ImportError msg),
      s\<lparr>trace := trace s @ [Import name]\<rparr>)"
  by (simp add: try_import_def andthen_def emit_def ret_def raise_def)

lemma torch_cuda_is_available_eq:
  "torch_cuda_is_available e s = (Inr (cuda_is_available e), s\<lparr>trace := trace s @ [CudaIsAvailable]\<rparr>)"
  by (simp add: torch_cuda_is_available_def ext_eq)

lemma getattr_Inr:
  "getattr e name s = (Inr v, s') \<longleftrightarrow>
     s' = s \<and> (self s name = Some v \<or> (self s name = None \<and> class_attrs e name = Some v))"
  by (auto simp: getattr_def split: option.splits)

lemma getattr_inst: "self s name = Some v \<Longrightarrow> getattr e name s = (Inr v, s)"
  by (simp add: getattr_def)

subsection \<open>The attributes of self are written by the constructor only\<close>

lemma andthen_self:
  assumes "\<And>s. self (snd (m s)) = self s" and "\<And>x s. self (snd (f x s)) = self s"
  shows "self (snd (andthen m f s)) = self s"
proof (cases "m s")
  case (Pair r s1)
  have s1: "self s1 = self s" using assms(1) [of s] Pair by simp
  show ?thesis
  proof (cases r)
    case (Inl err)
    with Pair s1 show ?thesis by (simp add: andthen_def)
  next
    case (Inr x)
    with Pair s1 assms(2) [of x s1] show ?thesis by (simp add: andthen_def)
  qed
qed

lemma ret_self: "self (snd (ret x s)) = self s"
  by (simp add: ret_def)

lemma lift_self: "self (snd (lift r s)) = self s"
  by (simp add: lift_def)

lemma ext_self: "self (snd (ext ev r s)) = self s"
  by (simp add: ext_eq)

lemma getattr_self: "self (snd (getattr e name s)) = self s"
  by (simp add: getattr_def split: option.splits)

lemma import_stmt_self: "self (snd (import_stmt e m n s)) = self s"
  by (simp add: import_stmt_eq)

lemma try_import_self: "self (snd (try_import e name msg s)) = self s"
  by (simp add: try_import_eq)

lemma torch_cuda_is_available_self: "self (snd (torch_cuda_is_available e s)) = self s"
  by (simp add: torch_cuda_is_available_eq)

lemma if_self:
  assumes "c \<Longrightarrow> self (snd (m s)) = self s" and "\<not> c \<Longrightarrow> self (snd (n s)) = self s"
  shows "self (snd ((if c then m else n) s)) = self s"
  using assms by simp

lemmas self_rules = andthen_self ret_self lift_self ext_self getattr_self
  import_stmt_self try_import_self torch_cuda_is_available_self if_self

lemma load_document_image_self: "self (snd (load_document_image e file s)) = self s"
  unfolding load_document_image_def by (intro self_rules)

lemma encode_image_self: "self (snd (encode_image e img s)) = self s"
  unfolding encode_image_def by (intro self_rules)

lemma parse_image_self: "self (snd (parse_image e img s)) = self s"
  unfolding parse_image_def by (intro self_rules)

lemma load_data_self: "self (snd (load_data e file x s)) = self s"
  unfolding load_data_def
  by (intro self_rules load_document_image_self encode_image_self parse_image_self)

subsection \<open>The constructor\<close>

lemma init_Some:
  "init e (Some cfg) k p s =
     (Inr (), s\<lparr>self := (self s)(''_parser_config'' \<mapsto> PDict cfg, ''_keep_image'' \<mapsto> PBool k,
        ''_prompt'' \<mapsto> PStr p)\<rparr>)"
  by (simp add: init_def andthen_def ret_def setattr_def)

lemma store_attrs:
  "andthen (setattr ''_parser_config'' (PDict cfg)) (\<lambda>_.
     andthen (setattr ''_keep_image'' (PBool k)) (\<lambda>_. setattr ''_prompt'' (PStr p))) s =
   (Inr (), s\<lparr>self := (self s)(''_parser_config'' \<mapsto> PDict cfg, ''_keep_image'' \<mapsto> PBool k,
        ''_prompt'' \<mapsto> PStr p)\<rparr>)"
  by (simp add: andthen_def setattr_def)

text \<open>The default configuration, as the None branch of the constructor builds it.\<close>

lemma init_None:
  "init e None k p s =
    (if \<not> importable e ''torch'' then
       (Inl (ImportError ''install pytorch to use the model: `pip install torch`''),
        s\<lparr>trace := trace s @ [Import ''torch'']\<rparr>)
     else if \<not> importable e ''transformers'' then
       (Inl (ImportError ''transformers is required for using BLIP2 model: `pip install transformers`''),
        s\<lparr>trace := trace s @ [Import ''torch'', Import ''transformers'']\<rparr>)
     else if \<not> importable e ''sentencepiece'' then
       (Inl (ImportError ''sentencepiece is required for using BLIP2 model: `pip install sentencepiece`''),
        s\<lparr>trace := trace s @ [Import ''torch'', Import ''transformers'', Import ''sentencepiece'']\<rparr>)
     else if \<not> importable e ''PIL'' then
       (Inl (ImportError ''PIL is required to read image files: `pip install Pillow`''),
        s\<lparr>trace := trace s @ [Import ''torch'', Import ''transformers'', Import ''sentencepiece'',
           Import ''PIL'']\<rparr>)
     else
       (let dt = (if cuda_is_available e then float16 else float32);
            evs = [Import ''torch'', Import ''transformers'', Import ''sentencepiece'',
                   Import ''PIL'', CudaIsAvailable, CudaIsAvailable,
                   ProcessorFromPretrained hub_name]
        in case Blip2Processor_from_pretrained e hub_name of
             Inl err \<Rightarrow> (Inl err, s\<lparr>trace := trace s @ evs\<rparr>)
           | Inr processor \<Rightarrow>
               (case Blip2ForConditionalGeneration_from_pretrained e hub_name dt of
                  Inl err \<Rightarrow> (Inl err, s\<lparr>trace := trace s @ evs @ [ModelFromPretrained hub_name dt]\<rparr>)
                | Inr model \<Rightarrow>
                   (Inr (),
                    s\<lparr>trace := trace s @ evs @ [ModelFromPretrained hub_name dt],
                      self := (self s)(''_parser_config'' \<mapsto>
                         PDict [(''processor'', processor), (''model'', model),
                           (''device'', PStr (if cuda_is_available e then ''cuda'' else ''cpu'')),
                           (''dtype'', PDtype dt)],
                        ''_keep_image'' \<mapsto> PBool k, ''_prompt'' \<mapsto> PStr p)\<rparr>))))"
  unfolding init_def option.case 
  by (simp add: andthen_def try_import_eq torch_cuda_is_available_eq ext_eq ret_def setattr_def Let_def
      split: sum.splits)

subsection \<open>What a call of the constructor and of load\_data leaves behind\<close>

lemma reader_attrs:
  assumes "ImageVisionLLMReader e pc k p = (Inr r, tr)"
  shows "\<exists>cfg. r = [''_parser_config'' \<mapsto> PDict cfg, ''_keep_image'' \<mapsto> PBool k,
           ''_prompt'' \<mapsto> PStr p]"
proof (cases pc)
  case None
  with assms show ?thesis
    by (auto simp: ImageVisionLLMReader_def init_None Let_def split: if_splits sum.splits)
next
  case (Some cfg)
  with assms show ?thesis
    by (auto simp: ImageVisionLLMReader_def init_Some)
qed

lemma encode_image_Inr:
  assumes "encode_image e img s = (Inr istr, s')" and "self s ''_keep_image'' = Some (PBool k)"
  shows "self s' = self s \<and> (if k then \<exists>b. img_2_b64 e img = Inr b \<and> istr = Some b else istr = None)"
  using assms
  by (auto simp: encode_image_def andthen_Inr getattr_Inr ext_eq ret_Inr split: if_splits)

lemma load_document_image_eq:
  "load_document_image e file s =
     (case Image_open e file of
        Inl err \<Rightarrow> (Inl err, s\<lparr>trace := trace s @ [ImageOpen file]\<rparr>)
      | Inr img \<Rightarrow>
          if mode img \<noteq> ''RGB''
          then (image_convert e img ''RGB'',
                s\<lparr>trace := trace s @ [ImageOpen file, ImageConvert ''RGB'']\<rparr>)
          else (Inr img, s\<lparr>trace := trace s @ [ImageOpen file]\<rparr>))"
  by (simp add: load_document_image_def andthen_def ext_eq ret_def split: sum.splits)

lemma load_data_Inr:
  assumes "load_data e file x s = (Inr v, s')"
  shows "\<exists>img istr t s1 s2.
           importable e ''PIL'' \<and> importable e ''gpt_index.img_utils'' \<and>
           load_document_image e file
             (s\<lparr>trace := trace s @ [Import ''PIL'', Import ''gpt_index.img_utils'']\<rparr>) = (Inr img, s1) \<and>
           encode_image e img s1 = (Inr istr, s2) \<and>
           parse_image e img s2 = (Inr t, s') \<and>
           v = PyDocument (ImageDocument (Some t) istr)"
  using assms
  by (auto simp: load_data_def andthen_Inr import_stmt_eq ret_Inr split: if_splits)

subsection \<open>The image field follows keep\_image\<close>

text \<open>
  Claim C1. Take a reader the constructor has built with the flag \<open>keep_image\<close>, and a
  call of \<open>load_data\<close> on it that returns. The value returned is a document whose text is
  set; its image field is \<open>None\<close> exactly when \<open>keep_image\<close> is false, and when
  \<open>keep_image\<close> is true it is the string \<open>img_2_b64\<close> returned.
\<close>

theorem load_data_image_iff_keep_image:
  assumes "ImageVisionLLMReader e pc keep_image prompt = (Inr r, tr)"
    and "load_data e file x s = (Inr v, s')"
    and "self s = r"
  shows "\<exists>d t. v = PyDocument d \<and> doc_text d = Some t \<and>
           (doc_image d = None \<longleftrightarrow> \<not> keep_image) \<and>
           (keep_image \<longrightarrow> (\<exists>img b. img_2_b64 e img = Inr b \<and> doc_image d = Some b))"
proof -
  from reader_attrs [OF assms(1)] have k: "r ''_keep_image'' = Some (PBool keep_image)"
    by auto
  from load_data_Inr [OF assms(2)] obtain img istr t s1 s2 where
    ld: "load_document_image e file
           (s\<lparr>trace := trace s @ [Import ''PIL'', Import ''gpt_index.img_utils'']\<rparr>) = (Inr img, s1)"
    and en: "encode_image e img s1 = (Inr istr, s2)"
    and v: "v = PyDocument (ImageDocument (Some t) istr)"
    by blast
  have "self s1 = r"
    using load_document_image_self [of e "file" "s\<lparr>trace := trace s @ [Import ''PIL'', Import ''gpt_index.img_utils'']\<rparr>"]
      ld assms(3) by simp
  with k have "self s1 ''_keep_image'' = Some (PBool keep_image)" by simp
  from encode_image_Inr [OF en this]
  have "if keep_image then \<exists>b. img_2_b64 e img = Inr b \<and> istr = Some b else istr = None"
    by simp
  with v show ?thesis
    by (auto simp: ImageDocument_def split: if_splits)
qed

subsection \<open>Runs on the concrete environments\<close>

lemma example_reader_built:
  "ImageVisionLLMReader e (Some example_config) k default_prompt = (Inr (example_reader k), [])"
  by (simp add: ImageVisionLLMReader_def init_Some example_reader_def)

lemma parse_image_example:
  "self s = example_reader k \<Longrightarrow> parse_image example_env img s =
     (Inr ''a red square'',
      s\<lparr>trace := trace s @ [ModelTo, ProcessorCall (PObj 1) img (PStr default_prompt), InputsTo,
         ModelGenerate, ProcessorDecode]\<rparr>)"
  by (simp add: parse_image_def andthen_def getattr_def lift_def ext_eq example_reader_def
      example_env_def example_config_def)

lemma load_data_example_cat:
  "load_data example_env ''cat.png'' x \<lparr>self = example_reader True, trace = []\<rparr> =
     (Inr (PyDocument \<lparr>doc_text = Some ''a red square'', doc_image = Some ''UkdC'',
        doc_extra_info = None\<rparr>),
      \<lparr>self = example_reader True,
       trace = [Import ''PIL'', Import ''gpt_index.img_utils'', ImageOpen ''cat.png'',
         Img2B64 \<lparr>mode = ''RGB'', pixels = [255, 0, 0]\<rparr>, ModelTo,
         ProcessorCall (PObj 1) \<lparr>mode = ''RGB'', pixels = [255, 0, 0]\<rparr> (PStr default_prompt),
         InputsTo, ModelGenerate, ProcessorDecode]\<rparr>)"
proof -
  have 1: "load_document_image example_env ''cat.png'' s =
      (Inr \<lparr>mode = ''RGB'', pixels = [255, 0, 0]\<rparr>, s\<lparr>trace := trace s @ [ImageOpen ''cat.png'']\<rparr>)" for s
    by (simp add: load_document_image_eq example_env_def)
  have 2: "self s = example_reader True \<Longrightarrow>
      encode_image example_env \<lparr>mode = ''RGB'', pixels = [255, 0, 0]\<rparr> s =
      (Inr (Some ''UkdC''),
       s\<lparr>trace := trace s @ [Img2B64 \<lparr>mode = ''RGB'', pixels = [255, 0, 0]\<rparr>]\<rparr>)" for s
    by (simp add: encode_image_def andthen_def getattr_def ext_eq ret_def example_reader_def
        example_env_def)
  show ?thesis
    by (simp add: load_data_def andthen_def import_stmt_eq 1 2 parse_image_example ret_def
        ImageDocument_def) (simp add: example_env_def)
qed

theorem load_data_image_iff_keep_image_witness:
  "ImageVisionLLMReader example_env (Some example_config) True default_prompt =
     (Inr (example_reader True), []) \<and>
   fst (load_data example_env ''cat.png'' None \<lparr>self = example_reader True, trace = []\<rparr>) =
     Inr (PyDocument \<lparr>doc_text = Some ''a red square'', doc_image = Some ''UkdC'',
        doc_extra_info = None\<rparr>) \<and>
   (\<exists>d t. PyDocument \<lparr>doc_text = Some ''a red square'', doc_image = Some ''UkdC'',
        doc_extra_info = None\<rparr> = PyDocument d \<and> doc_text d = Some t \<and> doc_image d \<noteq> None)"
  using load_data_image_iff_keep_image [OF example_reader_built load_data_example_cat]
  by (simp add: example_reader_built load_data_example_cat)

subsection \<open>The constructor\<close>

text \<open>
  Claim C3. When a configuration is supplied (any value other than \<open>None\<close>), the
  constructor returns the reader whose three attributes are the supplied configuration,
  the flag and the prompt, and its trace is empty: no import is tried, nothing is asked
  of torch and nothing is fetched from the hub.
\<close>

theorem explicit_config_is_only_stored:
  "ImageVisionLLMReader e (Some cfg) keep_image prompt =
     (Inr [''_parser_config'' \<mapsto> PDict cfg, ''_keep_image'' \<mapsto> PBool keep_image,
           ''_prompt'' \<mapsto> PStr prompt], [])"
  by (simp add: ImageVisionLLMReader_def init_Some)

text \<open>
  Claim C4. When the configuration is omitted, the four modules are tried in the order
  torch, transformers, sentencepiece, PIL. The first one that is missing ends the
  construction with an \<open>ImportError\<close> whose message is that module's own and names
  its \<open>pip install\<close> command; the four messages differ. No reader is returned, and the
  trace up to the error holds import attempts only: no image is opened, nothing is
  downloaded.
\<close>

theorem missing_dependency_fails_construction:
  "(\<not> importable e ''torch'' \<longrightarrow>
      ImageVisionLLMReader e None keep_image prompt =
        (Inl (ImportError ''install pytorch to use the model: `pip install torch`''),
         [Import ''torch''])) \<and>
   (importable e ''torch'' \<and> \<not> importable e ''transformers'' \<longrightarrow>
      ImageVisionLLMReader e None keep_image prompt =
        (Inl (ImportError
           ''transformers is required for using BLIP2 model: `pip install transformers`''),
         [Import ''torch'', Import ''transformers''])) \<and>
   (importable e ''torch'' \<and> importable e ''transformers'' \<and> \<not> importable e ''sentencepiece'' \<longrightarrow>
      ImageVisionLLMReader e None keep_image prompt =
        (Inl (ImportError
           ''sentencepiece is required for using BLIP2 model: `pip install sentencepiece`''),
         [Import ''torch'', Import ''transformers'', Import ''sentencepiece''])) \<and>
   (importable e ''torch'' \<and> importable e ''transformers'' \<and> importable e ''sentencepiece'' \<and>
    \<not> importable e ''PIL'' \<longrightarrow>
      ImageVisionLLMReader e None keep_image prompt =
        (Inl (ImportError ''PIL is required to read image files: `pip install Pillow`''),
         [Import ''torch'', Import ''transformers'', Import ''sentencepiece'', Import ''PIL''])) \<and>
   (\<not> (importable e ''torch'' \<and> importable e ''transformers'' \<and> importable e ''sentencepiece'' \<and>
        importable e ''PIL'') \<longrightarrow>
      (\<exists>msg. fst (ImageVisionLLMReader e None keep_image prompt) = Inl (ImportError msg)) \<and>
      list_all is_import (snd (ImageVisionLLMReader e None keep_image prompt)))"
  by (simp add: ImageVisionLLMReader_def init_None)

lemma importable_env_without: "importable (env_without name) n \<longleftrightarrow> n \<noteq> name"
  by (simp add: env_without_def example_env_def)

theorem missing_dependency_fails_construction_witness:
  "ImageVisionLLMReader (env_without ''torch'') None False default_prompt =
     (Inl (ImportError ''install pytorch to use the model: `pip install torch`''),
      [Import ''torch'']) \<and>
   ImageVisionLLMReader (env_without ''transformers'') None False default_prompt =
     (Inl (ImportError
        ''transformers is required for using BLIP2 model: `pip install transformers`''),
      [Import ''torch'', Import ''transformers'']) \<and>
   ImageVisionLLMReader (env_without ''sentencepiece'') None False default_prompt =
     (Inl (ImportError
        ''sentencepiece is required for using BLIP2 model: `pip install sentencepiece`''),
      [Import ''torch'', Import ''transformers'', Import ''sentencepiece'']) \<and>
   ImageVisionLLMReader (env_without ''PIL'') None False default_prompt =
     (Inl (ImportError ''PIL is required to read image files: `pip install Pillow`''),
      [Import ''torch'', Import ''transformers'', Import ''sentencepiece'', Import ''PIL''])"
  using missing_dependency_fails_construction [of "env_without ''torch''" False default_prompt]
    missing_dependency_fails_construction [of "env_without ''transformers''" False default_prompt]
    missing_dependency_fails_construction [of "env_without ''sentencepiece''" False default_prompt]
    missing_dependency_fails_construction [of "env_without ''PIL''" False default_prompt]
  by (simp add: importable_env_without)

text \<open>
  Claim C5. A reader built without a configuration stores a default one whose device is
  \<open>cuda\<close> when \<open>torch.cuda.is_available()\<close> holds and \<open>cpu\<close> otherwise, and whose dtype
  is \<open>float16\<close> when it holds and \<open>float32\<close> otherwise; so the dtype is \<open>float16\<close>
  exactly when the device is \<open>cuda\<close>. The model is fetched with that same dtype. (The
  source asks torch twice; the environment answers both calls alike.)
\<close>

theorem default_device_and_dtype:
  assumes "ImageVisionLLMReader e None keep_image prompt = (Inr r, tr)"
  shows "\<exists>cfg. r ''_parser_config'' = Some cfg \<and>
           getitem cfg ''device'' = Inr (PStr (if cuda_is_available e then ''cuda'' else ''cpu'')) \<and>
           getitem cfg ''dtype'' = Inr (PDtype (if cuda_is_available e then float16 else float32)) \<and>
           (getitem cfg ''dtype'' = Inr (PDtype float16) \<longleftrightarrow>
              getitem cfg ''device'' = Inr (PStr ''cuda'')) \<and>
           (ModelFromPretrained hub_name float16 \<in> set tr \<longleftrightarrow> cuda_is_available e) \<and>
           (ModelFromPretrained hub_name float32 \<in> set tr \<longleftrightarrow> \<not> cuda_is_available e)"
  using assms
  by (auto simp: ImageVisionLLMReader_def init_None Let_def split: if_splits sum.splits)

lemma default_reader_example:
  "ImageVisionLLMReader example_env None False default_prompt =
     (Inr (example_reader False),
      [Import ''torch'', Import ''transformers'', Import ''sentencepiece'', Import ''PIL'',
       CudaIsAvailable, CudaIsAvailable, ProcessorFromPretrained hub_name,
       ModelFromPretrained hub_name float32])"
  by (simp add: ImageVisionLLMReader_def init_None Let_def example_env_def example_reader_def
      example_config_def)

theorem default_device_and_dtype_witness:
  "ImageVisionLLMReader example_env None False default_prompt =
     (Inr (example_reader False),
      [Import ''torch'', Import ''transformers'', Import ''sentencepiece'', Import ''PIL'',
       CudaIsAvailable, CudaIsAvailable, ProcessorFromPretrained hub_name,
       ModelFromPretrained hub_name float32]) \<and>
   \<not> cuda_is_available example_env \<and>
   (\<exists>cfg. example_reader False ''_parser_config'' = Some cfg \<and>
      getitem cfg ''device'' = Inr (PStr ''cpu'') \<and>
      getitem cfg ''dtype'' = Inr (PDtype float32))"
  using default_device_and_dtype [OF default_reader_example]
  by (simp add: default_reader_example) (simp add: example_env_def, blast)

subsection \<open>What a computation adds to the trace\<close>

lemma emits_iff:
  "emits P m s \<longleftrightarrow> (\<exists>evs. trace (snd (m s)) = trace s @ evs \<and> list_all P evs)"
  by (auto simp: emits_def) (metis append_take_drop_id)

lemma emits_andthen:
  assumes "emits P m s" and "\<And>x s1. m s = (Inr x, s1) \<Longrightarrow> emits P (f x) s1"
  shows "emits P (andthen m f) s"
proof (cases "m s")
  case (Pair r s1)
  from assms(1) Pair obtain evs where evs: "trace s1 = trace s @ evs" "list_all P evs"
    by (auto simp: emits_iff)
  show ?thesis
  proof (cases r)
    case (Inl err)
    with Pair evs show ?thesis by (auto simp: emits_iff andthen_def)
  next
    case (Inr x)
    with Pair assms(2) obtain evs' where "trace (snd (f x s1)) = trace s1 @ evs'" "list_all P evs'"
      by (auto simp: emits_iff)
    with Pair Inr evs show ?thesis by (auto simp: emits_iff andthen_def)
  qed
qed

lemma emits_ret: "emits P (ret x) s"
  by (simp add: emits_iff ret_def)

lemma emits_lift: "emits P (lift r) s"
  by (simp add: emits_iff lift_def)

lemma emits_getattr: "emits P (getattr e name) s"
  by (simp add: emits_iff getattr_def split: option.splits)

lemma emits_ext: "P ev \<Longrightarrow> emits P (ext ev r) s"
  by (simp add: emits_iff ext_eq)

lemma emits_import_stmt: "P (Import m) \<Longrightarrow> emits P (import_stmt e m n) s"
  by (simp add: emits_iff import_stmt_eq)

lemma emits_if:
  assumes "c \<Longrightarrow> emits P m s" and "\<not> c \<Longrightarrow> emits P n s"
  shows "emits P (if c then m else n) s"
  using assms by simp

lemma emits_encode_image: "P (Img2B64 img) \<Longrightarrow> emits P (encode_image e img) s"
  unfolding encode_image_def
  by (intro emits_andthen emits_getattr emits_if emits_ext emits_ret)

lemma emits_parse_image:
  assumes "P ModelTo" "\<And>p q. P (ProcessorCall p img q)" "P InputsTo" "P ModelGenerate"
    "P ProcessorDecode"
  shows "emits P (parse_image e img) s"
  unfolding parse_image_def
  by (intro emits_andthen emits_getattr emits_lift emits_ext assms)

text \<open>
  After the image is loaded, every further event is the serialisation of that image, a
  call of the processor on that image, or one of the other calls of the backend.
\<close>

lemma emits_after_load:
  "emits (\<lambda>ev. ev = Img2B64 img \<or> (\<exists>p q. ev = ProcessorCall p img q) \<or>
           ev \<in> {ModelTo, InputsTo, ModelGenerate, ProcessorDecode})
     (andthen (encode_image e img) (\<lambda>image_str.
      andthen (parse_image e img) (\<lambda>text_str.
      ret (PyDocument (ImageDocument (Some text_str) image_str))))) s"
  by (intro emits_andthen emits_encode_image emits_parse_image emits_ret) simp_all

lemma load_data_opened:
  assumes "importable e ''PIL''" and "importable e ''gpt_index.img_utils''"
    and "Image_open e file = Inr img"
  shows "load_data e file x s =
     (if mode img \<noteq> ''RGB'' then
        (case image_convert e img ''RGB'' of
           Inl err \<Rightarrow> (Inl err, s\<lparr>trace := trace s @ [Import ''PIL'', Import ''gpt_index.img_utils'',
              ImageOpen file, ImageConvert ''RGB'']\<rparr>)
         | Inr img' \<Rightarrow>
             andthen (encode_image e img') (\<lambda>image_str.
             andthen (parse_image e img') (\<lambda>text_str.
             ret (PyDocument (ImageDocument (Some text_str) image_str))))
               (s\<lparr>trace := trace s @ [Import ''PIL'', Import ''gpt_index.img_utils'',
                  ImageOpen file, ImageConvert ''RGB'']\<rparr>))
      else
        andthen (encode_image e img) (\<lambda>image_str.
        andthen (parse_image e img) (\<lambda>text_str.
        ret (PyDocument (ImageDocument (Some text_str) image_str))))
          (s\<lparr>trace := trace s @ [Import ''PIL'', Import ''gpt_index.img_utils'', ImageOpen file]\<rparr>))"
  unfolding load_data_def
  by (simp add: andthen_step [where m = "import_stmt e m n" for m n]
      andthen_step [where m = "load_document_image e f" for f]
      andthen_stop [where m = "load_document_image e f" for f]
      import_stmt_eq load_document_image_eq assms split: sum.splits)

lemma load_data_trace_opened:
  assumes "importable e ''PIL''" and "importable e ''gpt_index.img_utils''"
    and "Image_open e file = Inr img"
    and "if mode img \<noteq> ''RGB'' then image_convert e img ''RGB'' = Inr img' else img' = img"
  shows "\<exists>evs. trace (snd (load_data e file x s)) =
           trace s @ [Import ''PIL'', Import ''gpt_index.img_utils'', ImageOpen file] @
           (if mode img \<noteq> ''RGB'' then [ImageConvert ''RGB''] else []) @ evs \<and>
           list_all (\<lambda>ev. ev = Img2B64 img' \<or> (\<exists>p q. ev = ProcessorCall p img' q) \<or>
              ev \<in> {ModelTo, InputsTo, ModelGenerate, ProcessorDecode}) evs"
proof (cases "mode img \<noteq> ''RGB''")
  case False
  with assms(4) show ?thesis
    using emits_after_load [where e = e and img = img and s =
        "s\<lparr>trace := trace s @ [Import ''PIL'', Import ''gpt_index.img_utils'', ImageOpen file]\<rparr>"]
    by (auto simp: load_data_opened [OF assms(1-3)] emits_iff)
next
  case True
  with assms(4) show ?thesis
    using emits_after_load [where e = e and img = img' and s =
        "s\<lparr>trace := trace s @ [Import ''PIL'', Import ''gpt_index.img_utils'', ImageOpen file,
           ImageConvert ''RGB'']\<rparr>"]
    by (auto simp: load_data_opened [OF assms(1-3)] emits_iff)
qed

lemma load_data_trace_not_converted:
  assumes "importable e ''PIL''" and "importable e ''gpt_index.img_utils''"
    and "Image_open e file = Inr img" and "mode img \<noteq> ''RGB''"
    and "image_convert e img ''RGB'' = Inl err"
  shows "trace (snd (load_data e file x s)) =
           trace s @ [Import ''PIL'', Import ''gpt_index.img_utils'', ImageOpen file,
             ImageConvert ''RGB'']"
  using assms(4,5) by (simp add: load_data_opened [OF assms(1-3)])

text \<open>A reader that keeps the image has the loaded image serialised.\<close>

lemma encode_image_keep:
  assumes "self s ''_keep_image'' = Some (PBool True)"
  shows "encode_image e img s =
           (case img_2_b64 e img of Inl err \<Rightarrow> Inl err | Inr b \<Rightarrow> Inr (Some b),
            s\<lparr>trace := trace s @ [Img2B64 img]\<rparr>)"
  using assms
  by (simp add: encode_image_def andthen_def getattr_def ext_eq ret_def split: sum.splits)

lemma serialised_when_kept:
  assumes "self s ''_keep_image'' = Some (PBool True)"
  shows "Img2B64 img \<in> set (trace (snd (
           andthen (encode_image e img) (\<lambda>image_str.
           andthen (parse_image e img) (\<lambda>text_str.
           ret (PyDocument (ImageDocument (Some text_str) image_str)))) s)))"
proof (cases "img_2_b64 e img")
  case (Inl err)
  then show ?thesis
    by (simp add: andthen_def encode_image_keep [OF assms])
next
  case (Inr b)
  let ?s1 = "s\<lparr>trace := trace s @ [Img2B64 img]\<rparr>"
  have "emits (\<lambda>_. True)
          (andthen (parse_image e img) (\<lambda>text_str.
             ret (PyDocument (ImageDocument (Some text_str) (Some b))))) ?s1"
    by (intro emits_andthen emits_parse_image emits_ret) simp_all
  then obtain evs where
    "trace (snd (andthen (parse_image e img) (\<lambda>text_str.
             ret (PyDocument (ImageDocument (Some text_str) (Some b)))) ?s1)) = trace ?s1 @ evs"
    by (auto simp: emits_iff)
  with Inr show ?thesis
    by (simp add: andthen_def [of "encode_image e img"] encode_image_keep [OF assms])
qed

lemma load_data_serialises_normalised:
  assumes "importable e ''PIL''" and "importable e ''gpt_index.img_utils''"
    and "Image_open e file = Inr img"
    and "if mode img \<noteq> ''RGB'' then image_convert e img ''RGB'' = Inr img' else img' = img"
    and "self s ''_keep_image'' = Some (PBool True)"
  shows "Img2B64 img' \<in> set (trace (snd (load_data e file x s)))"
proof (cases "mode img \<noteq> ''RGB''")
  case False
  with assms(4) show ?thesis
    using serialised_when_kept [where e = e and img = img and s =
        "s\<lparr>trace := trace s @ [Import ''PIL'', Import ''gpt_index.img_utils'', ImageOpen file]\<rparr>"] assms(5)
    by (simp add: load_data_opened [OF assms(1-3)])
next
  case True
  with assms(4) show ?thesis
    using serialised_when_kept [where e = e and img = img' and s =
        "s\<lparr>trace := trace s @ [Import ''PIL'', Import ''gpt_index.img_utils'', ImageOpen file,
           ImageConvert ''RGB'']\<rparr>"] assms(5)
    by (simp add: load_data_opened [OF assms(1-3)])
qed

lemma load_data_Inr_opened:
  assumes "load_data e file x s = (Inr v, s')" and "Image_open e file = Inr img"
    and "self s ''_keep_image'' = Some (PBool k)"
  shows "\<exists>img' t. (if mode img \<noteq> ''RGB'' then image_convert e img ''RGB'' = Inr img' else img' = img) \<and>
           (if k then \<exists>b. img_2_b64 e img' = Inr b \<and>
                        v = PyDocument (ImageDocument (Some t) (Some b))
            else v = PyDocument (ImageDocument (Some t) None))"
proof -
  let ?s0 = "s\<lparr>trace := trace s @ [Import ''PIL'', Import ''gpt_index.img_utils'']\<rparr>"
  from load_data_Inr [OF assms(1)] obtain img' istr t s1 s2 where
    ld: "load_document_image e file ?s0 = (Inr img', s1)"
    and en: "encode_image e img' s1 = (Inr istr, s2)"
    and v: "v = PyDocument (ImageDocument (Some t) istr)"
    by blast
  from ld assms(2)
  have img': "if mode img \<noteq> ''RGB'' then image_convert e img ''RGB'' = Inr img' else img' = img"
    by (auto simp: load_document_image_eq split: if_splits)
  have "self s1 = self s"
    using load_document_image_self [of e "file" ?s0] ld by simp
  with assms(3) have "self s1 ''_keep_image'' = Some (PBool k)" by simp
  from encode_image_Inr [OF en this]
  have "if k then \<exists>b. img_2_b64 e img' = Inr b \<and> istr = Some b else istr = None"
    by simp
  with v img' show ?thesis
    by (intro exI [of _ img'] exI [of _ t]) (cases k, auto)
qed

lemma parse_image_Inr_calls:
  assumes "parse_image e img s = (Inr t, s')"
  shows "\<exists>p q. ProcessorCall p img q \<in> set (trace s')"
  using assms
  by (auto simp: parse_image_def andthen_Inr getattr_Inr lift_Inr ext_eq) blast+

lemma load_data_Inr_calls:
  assumes "load_data e file x s = (Inr v, s')" and "Image_open e file = Inr img"
  shows "\<exists>img' p q.
           (if mode img \<noteq> ''RGB'' then image_convert e img ''RGB'' = Inr img' else img' = img) \<and>
           ProcessorCall p img' q \<in> set (trace s')"
proof -
  let ?s0 = "s\<lparr>trace := trace s @ [Import ''PIL'', Import ''gpt_index.img_utils'']\<rparr>"
  from load_data_Inr [OF assms(1)] obtain img' istr t s1 s2 where
    ld: "load_document_image e file ?s0 = (Inr img', s1)"
    and en: "encode_image e img' s1 = (Inr istr, s2)"
    and pa: "parse_image e img' s2 = (Inr t, s')"
    by blast
  from ld assms(2)
  have "if mode img \<noteq> ''RGB'' then image_convert e img ''RGB'' = Inr img' else img' = img"
    by (auto simp: load_document_image_eq split: if_splits)
  with parse_image_Inr_calls [OF pa] show ?thesis
    by blast
qed

lemma load_data_import_fails:
  assumes "importable e ''PIL''" and "\<not> importable e ''gpt_index.img_utils''"
  shows "load_data e file x s =
           (Inl (import_failure e ''gpt_index.img_utils'' ''img_2_b64''),
            s\<lparr>trace := trace s @ [Import ''PIL'', Import ''gpt_index.img_utils'']\<rparr>)"
  unfolding load_data_def
  by (simp add: andthen_step [where m = "import_stmt e ''PIL'' ''Image''"]
      andthen_stop [where m = "import_stmt e ''gpt_index.img_utils'' ''img_2_b64''"]
      import_stmt_eq assms)

lemma packages_img_utils:
  "packages ''gpt_index.img_utils'' = [''gpt_index'', ''gpt_index.img_utils'']"
  by (simp add: packages_def)

lemma import_failure_img_utils:
  "import_failure e ''gpt_index.img_utils'' n =
     (if \<not> found e ''gpt_index'' then ModuleNotFoundError ''gpt_index''
      else if \<not> found e ''gpt_index.img_utils'' then ModuleNotFoundError ''gpt_index.img_utils''
      else ImportError_no_name n ''gpt_index.img_utils'')"
  by (simp add: import_failure_def packages_img_utils)

lemma found_env_without: "found (env_without name) n \<longleftrightarrow> n \<noteq> name"
  by (simp add: env_without_def example_env_def)

lemma import_failure_env_without:
  "import_failure (env_without ''gpt_index.img_utils'') ''gpt_index.img_utils'' ''img_2_b64'' =
     ModuleNotFoundError ''gpt_index.img_utils''"
  by (simp add: import_failure_def packages_img_utils found_env_without)

subsection \<open>The image is normalised to RGB\<close>

text \<open>
  Claim C6, as amended. Take a call of \<open>load_data\<close> whose two imports succeed and whose
  path opens as an image. Whatever the reader, its flag and the argument \<open>extra_info\<close>
  are, the call converts the image to mode \<open>RGB\<close> exactly when its mode is not \<open>RGB\<close>
  already: an image in mode \<open>RGB\<close> is not converted, any other is. Call the opened image,
  or the result of its conversion when there was one, the normalised image. Every
  serialisation by \<open>img_2_b64\<close> and every call of the processor in that call of
  \<open>load_data\<close> is given the normalised image, never another one; a reader that keeps the
  image does serialise it, and when such a reader's call returns, the image string of
  the document is what \<open>img_2_b64\<close> returned for the normalised image; and every call
  that returns has called the processor on the normalised image.
\<close>

theorem image_is_normalized_to_RGB:
  assumes "importable e ''PIL''" and "importable e ''gpt_index.img_utils''"
    and "Image_open e file = Inr img"
  shows "(ImageConvert ''RGB'' \<in> set (trace (snd (load_data e file x \<lparr>self = r, trace = []\<rparr>)))
            \<longleftrightarrow> mode img \<noteq> ''RGB'') \<and>
         (\<forall>i. Img2B64 i \<in> set (trace (snd (load_data e file x \<lparr>self = r, trace = []\<rparr>))) \<longrightarrow>
              (if mode img \<noteq> ''RGB'' then image_convert e img ''RGB'' = Inr i else i = img)) \<and>
         (\<forall>p i q. ProcessorCall p i q \<in>
                set (trace (snd (load_data e file x \<lparr>self = r, trace = []\<rparr>))) \<longrightarrow>
              (if mode img \<noteq> ''RGB'' then image_convert e img ''RGB'' = Inr i else i = img)) \<and>
         (\<forall>i. (if mode img \<noteq> ''RGB'' then image_convert e img ''RGB'' = Inr i else i = img) \<and>
              r ''_keep_image'' = Some (PBool True) \<longrightarrow>
              Img2B64 i \<in> set (trace (snd (load_data e file x \<lparr>self = r, trace = []\<rparr>)))) \<and>
         (\<forall>v s'. load_data e file x \<lparr>self = r, trace = []\<rparr> = (Inr v, s') \<and>
                 r ''_keep_image'' = Some (PBool True) \<longrightarrow>
            (\<exists>img' d b. (if mode img \<noteq> ''RGB'' then image_convert e img ''RGB'' = Inr img'
                         else img' = img) \<and>
                img_2_b64 e img' = Inr b \<and> v = PyDocument d \<and> doc_image d = Some b)) \<and>
         (\<forall>v s'. load_data e file x \<lparr>self = r, trace = []\<rparr> = (Inr v, s') \<longrightarrow>
            (\<exists>img' p q. (if mode img \<noteq> ''RGB'' then image_convert e img ''RGB'' = Inr img'
                         else img' = img) \<and>
                ProcessorCall p img' q \<in> set (trace s')))"
proof -
  let ?T = "trace (snd (load_data e file x \<lparr>self = r, trace = []\<rparr>))"
  let ?norm = "\<lambda>i. if mode img \<noteq> ''RGB'' then image_convert e img ''RGB'' = Inr i else i = img"
  have events: "(ImageConvert ''RGB'' \<in> set ?T \<longleftrightarrow> mode img \<noteq> ''RGB'') \<and>
      (\<forall>i. Img2B64 i \<in> set ?T \<longrightarrow> ?norm i) \<and>
      (\<forall>p i q. ProcessorCall p i q \<in> set ?T \<longrightarrow> ?norm i)"
  proof (cases "\<exists>img'. ?norm img'")
    case True
    then obtain img' where n: "?norm img'" ..
    from load_data_trace_opened [OF assms n, of x "\<lparr>self = r, trace = []\<rparr>"]
    obtain evs where
      tr: "?T = [Import ''PIL'', Import ''gpt_index.img_utils'', ImageOpen file] @
             (if mode img \<noteq> ''RGB'' then [ImageConvert ''RGB''] else []) @ evs"
      and evs: "list_all (\<lambda>ev. ev = Img2B64 img' \<or> (\<exists>p q. ev = ProcessorCall p img' q) \<or>
              ev \<in> {ModelTo, InputsTo, ModelGenerate, ProcessorDecode}) evs"
      by auto
    from evs have 1: "ImageConvert ''RGB'' \<notin> set evs"
      and 2: "\<And>i. Img2B64 i \<in> set evs \<Longrightarrow> i = img'"
      and 3: "\<And>p i q. ProcessorCall p i q \<in> set evs \<Longrightarrow> i = img'"
      by (auto simp: list_all_iff)
    have a: "ImageConvert ''RGB'' \<in> set ?T \<longleftrightarrow> mode img \<noteq> ''RGB''"
      using 1 by (simp add: tr)
    have b: "?norm i" if "Img2B64 i \<in> set ?T" for i
    proof -
      from that have "Img2B64 i \<in> set evs" by (simp add: tr split: if_splits)
      from 2 [OF this] n show ?thesis by simp
    qed
    have c: "?norm i" if "ProcessorCall p i q \<in> set ?T" for p i q
    proof -
      from that have "ProcessorCall p i q \<in> set evs" by (simp add: tr split: if_splits)
      from 3 [OF this] n show ?thesis by simp
    qed
    from a b c show ?thesis by blast
  next
    case False
    then have m: "mode img \<noteq> ''RGB''"
      by auto
    with False obtain err where "image_convert e img ''RGB'' = Inl err"
      by (cases "image_convert e img ''RGB''") auto
    from load_data_trace_not_converted [OF assms m this, of x "\<lparr>self = r, trace = []\<rparr>"] m
    show ?thesis by simp
  qed
  have kept: "Img2B64 i \<in> set ?T" if "?norm i \<and> r ''_keep_image'' = Some (PBool True)" for i
  proof -
    from that have n: "?norm i" and "self \<lparr>self = r, trace = []\<rparr> ''_keep_image'' = Some (PBool True)"
      by simp_all
    from load_data_serialises_normalised [OF assms n this(2)] show ?thesis .
  qed
  have returned: "\<exists>img' d b. ?norm img' \<and> img_2_b64 e img' = Inr b \<and> v = PyDocument d \<and>
        doc_image d = Some b"
    if a: "load_data e file x \<lparr>self = r, trace = []\<rparr> = (Inr v, s') \<and>
           r ''_keep_image'' = Some (PBool True)" for v s'
  proof -
    from a have "self \<lparr>self = r, trace = []\<rparr> ''_keep_image'' = Some (PBool True)" by simp
    from load_data_Inr_opened [OF conjunct1 [OF a] assms(3) this]
    show ?thesis by (auto simp: ImageDocument_def)
  qed
  have called: "\<exists>img' p q. ?norm img' \<and> ProcessorCall p img' q \<in> set (trace s')"
    if "load_data e file x \<lparr>self = r, trace = []\<rparr> = (Inr v, s')" for v s'
    using load_data_Inr_calls [OF that assms(3)] .
  from events kept returned called show ?thesis
    by (intro conjI allI impI) blast+
qed

text \<open>
  The same on \<open>scan.png\<close>, of mode \<open>L\<close>, for a reader that keeps the image, in a class
  hierarchy without \<open>parser_config\<close>.
\<close>

theorem image_is_normalized_to_RGB_witness:
  "importable plain_env ''PIL'' \<and> importable plain_env ''gpt_index.img_utils'' \<and>
   Image_open plain_env ''scan.png'' = Inr \<lparr>mode = ''L'', pixels = [7]\<rparr> \<and>
   image_convert plain_env \<lparr>mode = ''L'', pixels = [7]\<rparr> ''RGB'' =
     Inr \<lparr>mode = ''RGB'', pixels = [7, 7, 7]\<rparr> \<and>
   example_reader True ''_keep_image'' = Some (PBool True) \<and>
   ImageConvert ''RGB'' \<in>
     set (trace (snd (load_data plain_env ''scan.png'' None
        \<lparr>self = example_reader True, trace = []\<rparr>))) \<and>
   Img2B64 \<lparr>mode = ''RGB'', pixels = [7, 7, 7]\<rparr> \<in>
     set (trace (snd (load_data plain_env ''scan.png'' None
        \<lparr>self = example_reader True, trace = []\<rparr>))) \<and>
   Img2B64 \<lparr>mode = ''L'', pixels = [7]\<rparr> \<notin>
     set (trace (snd (load_data plain_env ''scan.png'' None
        \<lparr>self = example_reader True, trace = []\<rparr>)))"
proof -
  have h: "importable plain_env ''PIL''" "importable plain_env ''gpt_index.img_utils''"
    "Image_open plain_env ''scan.png'' = Inr \<lparr>mode = ''L'', pixels = [7]\<rparr>"
    by (simp_all add: plain_env_def example_env_def)
  have c: "image_convert plain_env \<lparr>mode = ''L'', pixels = [7]\<rparr> ''RGB'' =
             Inr \<lparr>mode = ''RGB'', pixels = [7, 7, 7]\<rparr>"
    by (simp add: plain_env_def example_env_def)
  have k: "example_reader True ''_keep_image'' = Some (PBool True)"
    by (simp add: example_reader_def)
  from image_is_normalized_to_RGB [OF h, where x = None and r = "example_reader True"]
  have "ImageConvert ''RGB'' \<in>
     set (trace (snd (load_data plain_env ''scan.png'' None
        \<lparr>self = example_reader True, trace = []\<rparr>)))"
    and "Img2B64 \<lparr>mode = ''RGB'', pixels = [7, 7, 7]\<rparr> \<in>
     set (trace (snd (load_data plain_env ''scan.png'' None
        \<lparr>self = example_reader True, trace = []\<rparr>)))"
    and "Img2B64 \<lparr>mode = ''L'', pixels = [7]\<rparr> \<notin>
     set (trace (snd (load_data plain_env ''scan.png'' None
        \<lparr>self = example_reader True, trace = []\<rparr>)))"
    using c k by auto
  with h c k show ?thesis by blast
qed

text \<open>
  Claim C6 as stated fails: where the module \<open>gpt_index.img_utils\<close> is not installed, the
  call for \<open>scan.png\<close>, an image of mode \<open>L\<close>, raises at the import of line 64; the image
  is neither opened nor converted.
\<close>

theorem no_conversion_without_img_utils:
  "importable (env_without ''gpt_index.img_utils'') ''PIL'' \<and>
   Image_open (env_without ''gpt_index.img_utils'') ''scan.png'' =
     Inr \<lparr>mode = ''L'', pixels = [7]\<rparr> \<and>
   load_data (env_without ''gpt_index.img_utils'') ''scan.png'' None
       \<lparr>self = example_reader True, trace = []\<rparr> =
     (Inl (ModuleNotFoundError ''gpt_index.img_utils''),
      \<lparr>self = example_reader True,
       trace = [Import ''PIL'', Import ''gpt_index.img_utils'']\<rparr>) \<and>
   ImageConvert ''RGB'' \<notin> set [Import ''PIL'', Import ''gpt_index.img_utils'']"
  by (simp add: load_data_import_fails importable_env_without import_failure_env_without)
    (simp add: env_without_def example_env_def)

subsection \<open>A run in which every call returns\<close>

lemma parse_image_run:
  assumes "self s ''parser_config'' = None" and "class_attrs e ''parser_config'' = Some pc"
    and "getitem pc ''model'' = Inr model" and "getitem pc ''processor'' = Inr processor"
    and "getitem pc ''device'' = Inr device" and "getitem pc ''dtype'' = Inr dt"
    and "self s ''_prompt'' = Some prompt"
    and "model_to e model device = Inr ()"
    and "processor_call e processor img prompt = Inr batch"
    and "inputs_to e batch device dt = Inr moved"
    and "model_generate e model moved = Inr (sq # sqs)"
    and "processor_decode e processor sq = Inr t"
  shows "parse_image e img s =
           (Inr t, s\<lparr>trace := trace s @
              [ModelTo, ProcessorCall processor img prompt, InputsTo, ModelGenerate,
               ProcessorDecode]\<rparr>)"
  using assms
  by (simp add: parse_image_def andthen_def getattr_def lift_def ext_eq)

lemma encode_image_run:
  assumes "self s ''_keep_image'' = Some (PBool k)" and "k \<Longrightarrow> img_2_b64 e img = Inr b"
  shows "encode_image e img s =
           (Inr (if k then Some b else None),
            s\<lparr>trace := trace s @ (if k then [Img2B64 img] else [])\<rparr>)"
  using assms
  by (simp add: encode_image_def andthen_def getattr_def ext_eq ret_def)

lemma load_data_run:
  assumes "importable e ''PIL''" and "importable e ''gpt_index.img_utils''"
    and "Image_open e f = Inr img0"
    and "if mode img0 \<noteq> ''RGB'' then image_convert e img0 ''RGB'' = Inr img else img = img0"
    and "self s ''_keep_image'' = Some (PBool k)" and "k \<Longrightarrow> img_2_b64 e img = Inr b"
    and "self s ''parser_config'' = None" and "class_attrs e ''parser_config'' = Some pc"
    and "getitem pc ''model'' = Inr model" and "getitem pc ''processor'' = Inr processor"
    and "getitem pc ''device'' = Inr device" and "getitem pc ''dtype'' = Inr dt"
    and "self s ''_prompt'' = Some prompt"
    and "model_to e model device = Inr ()"
    and "processor_call e processor img prompt = Inr batch"
    and "inputs_to e batch device dt = Inr moved"
    and "model_generate e model moved = Inr (sq # sqs)"
    and "processor_decode e processor sq = Inr t"
  shows "load_data e f x s =
           (Inr (PyDocument \<lparr>doc_text = Some t, doc_image = (if k then Some b else None),
              doc_extra_info = None\<rparr>),
            s\<lparr>trace := trace s @
              [Import ''PIL'', Import ''gpt_index.img_utils'', ImageOpen f] @
              (if mode img0 \<noteq> ''RGB'' then [ImageConvert ''RGB''] else []) @
              (if k then [Img2B64 img] else []) @
              [ModelTo, ProcessorCall processor img prompt, InputsTo, ModelGenerate,
               ProcessorDecode]\<rparr>)"
proof -
  let ?s1 = "s\<lparr>trace := trace s @
              [Import ''PIL'', Import ''gpt_index.img_utils'', ImageOpen f] @
              (if mode img0 \<noteq> ''RGB'' then [ImageConvert ''RGB''] else [])\<rparr>"
  let ?s2 = "?s1\<lparr>trace := trace ?s1 @ (if k then [Img2B64 img] else [])\<rparr>"
  let ?cap = "[ModelTo, ProcessorCall processor img prompt, InputsTo, ModelGenerate,
               ProcessorDecode]"
  have tail: "andthen (encode_image e img) (\<lambda>image_str.
          andthen (parse_image e img) (\<lambda>text_str.
          ret (PyDocument (ImageDocument (Some text_str) image_str)))) ?s1 =
        (Inr (PyDocument (ImageDocument (Some t) (if k then Some b else None))),
         ?s2\<lparr>trace := trace ?s2 @ ?cap\<rparr>)"
  proof -
    have en: "encode_image e img ?s1 = (Inr (if k then Some b else None), ?s2)"
      by (rule encode_image_run) (simp_all add: assms)
    have pa: "parse_image e img ?s2 =
        (Inr t, ?s2\<lparr>trace := trace ?s2 @ ?cap\<rparr>)"
      by (rule parse_image_run [where pc = pc and model = model and processor = processor
            and device = device and dt = dt and prompt = prompt and batch = batch
            and moved = moved and sq = sq and sqs = sqs]) (simp_all add: assms)
    show ?thesis
      using en pa by (simp add: andthen_def ret_def)
  qed
  show ?thesis
  proof (cases "mode img0 \<noteq> ''RGB''")
    case True
    with assms(4) tail show ?thesis
      by (simp add: load_data_opened [OF assms(1-3)] ImageDocument_def)
  next
    case False
    with assms(4) tail show ?thesis
      by (simp add: load_data_opened [OF assms(1-3)] ImageDocument_def)
  qed
qed

lemma load_data_example_scan:
  "load_data example_env ''scan.png'' x \<lparr>self = example_reader True, trace = []\<rparr> =
     (Inr (PyDocument \<lparr>doc_text = Some ''a red square'', doc_image = Some ''UkdC'',
        doc_extra_info = None\<rparr>),
      \<lparr>self = example_reader True,
       trace = [Import ''PIL'', Import ''gpt_index.img_utils'', ImageOpen ''scan.png'',
         ImageConvert ''RGB'', Img2B64 \<lparr>mode = ''RGB'', pixels = [7, 7, 7]\<rparr>, ModelTo,
         ProcessorCall (PObj 1) \<lparr>mode = ''RGB'', pixels = [7, 7, 7]\<rparr> (PStr default_prompt),
         InputsTo, ModelGenerate, ProcessorDecode]\<rparr>)"
  using load_data_run [where e = example_env and f = "''scan.png''"
      and s = "\<lparr>self = example_reader True, trace = []\<rparr>"
      and ?img0.0 = "\<lparr>mode = ''L'', pixels = [7]\<rparr>" and img = "\<lparr>mode = ''RGB'', pixels = [7, 7, 7]\<rparr>"
      and k = True and b = "''UkdC''" and pc = "PDict example_config"
      and model = "PObj 2" and processor = "PObj 1" and device = "PStr ''cpu''"
      and dt = "PDtype float32" and prompt = "PStr default_prompt" and batch = "PObj 3"
      and moved = "PObj 4" and sq = "[2, 5, 9]" and sqs = "[]" and t = "''a red square''" and x = x]
  by (simp add: example_env_def example_reader_def example_config_def)

subsection \<open>The attribute \_parser\_config is not read by load\_data\<close>

lemma andthen_overwrite:
  assumes "\<And>s. m (snd (setattr n v s)) = (fst (m s), snd (setattr n v (snd (m s))))"
    and "\<And>y s. f y (snd (setattr n v s)) = (fst (f y s), snd (setattr n v (snd (f y s))))"
  shows "andthen m f (snd (setattr n v s)) =
           (fst (andthen m f s), snd (setattr n v (snd (andthen m f s))))"
proof (cases "m s")
  case (Pair res s1)
  then have 1: "m (snd (setattr n v s)) = (res, snd (setattr n v s1))"
    using assms(1) [of s] by simp
  show ?thesis
  proof (cases res)
    case (Inl err)
    with Pair 1 show ?thesis by (simp add: andthen_def)
  next
    case (Inr y)
    with Pair 1 assms(2) [of y s1] show ?thesis by (simp add: andthen_def)
  qed
qed

lemma ret_overwrite:
  "ret y (snd (setattr n v s)) = (fst (ret y s), snd (setattr n v (snd (ret y s))))"
  by (simp add: ret_def)

lemma lift_overwrite:
  "lift res (snd (setattr n v s)) = (fst (lift res s), snd (setattr n v (snd (lift res s))))"
  by (simp add: lift_def)

lemma ext_overwrite:
  "ext ev res (snd (setattr n v s)) = (fst (ext ev res s), snd (setattr n v (snd (ext ev res s))))"
  by (simp add: ext_eq setattr_def)

lemma import_stmt_overwrite:
  "import_stmt e m nm (snd (setattr n v s)) =
     (fst (import_stmt e m nm s), snd (setattr n v (snd (import_stmt e m nm s))))"
  by (simp add: import_stmt_eq setattr_def)

lemma getattr_overwrite:
  "name \<noteq> n \<Longrightarrow> getattr e name (snd (setattr n v s)) =
     (fst (getattr e name s), snd (setattr n v (snd (getattr e name s))))"
  by (simp add: getattr_def setattr_def split: option.splits)

lemma if_overwrite:
  assumes "c \<Longrightarrow> m (snd (setattr n v s)) = (fst (m s), snd (setattr n v (snd (m s))))"
    and "\<not> c \<Longrightarrow> m' (snd (setattr n v s)) = (fst (m' s), snd (setattr n v (snd (m' s))))"
  shows "(if c then m else m') (snd (setattr n v s)) =
           (fst ((if c then m else m') s), snd (setattr n v (snd ((if c then m else m') s))))"
  using assms by simp

lemmas overwrite_rules = andthen_overwrite ret_overwrite lift_overwrite ext_overwrite
  import_stmt_overwrite if_overwrite

lemma load_document_image_overwrite:
  "load_document_image e file (snd (setattr n v s)) =
     (fst (load_document_image e file s), snd (setattr n v (snd (load_document_image e file s))))"
  unfolding load_document_image_def by (intro overwrite_rules)

lemma encode_image_overwrite:
  "encode_image e img (snd (setattr ''_parser_config'' v s)) =
     (fst (encode_image e img s), snd (setattr ''_parser_config'' v (snd (encode_image e img s))))"
  unfolding encode_image_def by (intro overwrite_rules getattr_overwrite) simp

lemma parse_image_overwrite:
  "parse_image e img (snd (setattr ''_parser_config'' v s)) =
     (fst (parse_image e img s), snd (setattr ''_parser_config'' v (snd (parse_image e img s))))"
  unfolding parse_image_def by (intro overwrite_rules getattr_overwrite) simp_all

lemma load_data_overwrite:
  "load_data e file x (snd (setattr ''_parser_config'' v s)) =
     (fst (load_data e file x s), snd (setattr ''_parser_config'' v (snd (load_data e file x s))))"
  unfolding load_data_def
  by (intro overwrite_rules load_document_image_overwrite encode_image_overwrite
      parse_image_overwrite)

lemma parse_image_no_attribute:
  assumes "self s ''parser_config'' = None" and "class_attrs e ''parser_config'' = None"
  shows "parse_image e img s = (Inl (AttributeError ''parser_config''), s)"
  using assms by (simp add: parse_image_def andthen_def getattr_def)

lemma load_data_no_attribute:
  assumes "self s ''parser_config'' = None" and "class_attrs e ''parser_config'' = None"
  shows "fst (load_data e file x s) \<noteq> Inr v"
proof
  assume "fst (load_data e file x s) = Inr v"
  then obtain s' where "load_data e file x s = (Inr v, s')"
    by (cases "load_data e file x s") simp
  from load_data_Inr [OF this] obtain img istr t s1 s2 where
    ld: "load_document_image e file
           (s\<lparr>trace := trace s @ [Import ''PIL'', Import ''gpt_index.img_utils'']\<rparr>) = (Inr img, s1)"
    and en: "encode_image e img s1 = (Inr istr, s2)"
    and pa: "parse_image e img s2 = (Inr t, s')"
    by blast
  have "self s1 = self s"
    using load_document_image_self [of e "file"
        "s\<lparr>trace := trace s @ [Import ''PIL'', Import ''gpt_index.img_utils'']\<rparr>"] ld
    by simp
  moreover have "self s2 = self s1"
    using encode_image_self [of e img s1] en by simp
  ultimately have "self s2 ''parser_config'' = None"
    using assms(1) by simp
  from parse_image_no_attribute [OF this assms(2)] pa show False
    by simp
qed

text \<open>
  Claim C10. The constructor stores the configuration under the name \<open>_parser_config\<close>;
  \<open>load_data\<close> reads the name \<open>parser_config\<close>, which the constructor never sets. So for
  a reader the constructor has built, in a class hierarchy that defines no attribute
  \<open>parser_config\<close>: the instance has \<open>_parser_config\<close> and lacks \<open>parser_config\<close>;
  overwriting \<open>_parser_config\<close> with any value changes neither the outcome nor the trace
  of \<open>load_data\<close>; the captioning block fails at its first statement with
  \<open>AttributeError\<close>, before any call of the backend; and no call of \<open>load_data\<close>
  returns.
\<close>

theorem stored_config_is_never_read:
  assumes "ImageVisionLLMReader e pc keep_image prompt = (Inr r, tr)"
    and "class_attrs e ''parser_config'' = None"
  shows "(\<exists>cfg. r ''_parser_config'' = Some (PDict cfg)) \<and> r ''parser_config'' = None \<and>
         fst (load_data e file x (snd (setattr ''_parser_config'' v \<lparr>self = r, trace = []\<rparr>))) =
           fst (load_data e file x \<lparr>self = r, trace = []\<rparr>) \<and>
         trace (snd (load_data e file x (snd (setattr ''_parser_config'' v \<lparr>self = r, trace = []\<rparr>)))) =
           trace (snd (load_data e file x \<lparr>self = r, trace = []\<rparr>)) \<and>
         parse_image e img \<lparr>self = r, trace = t0\<rparr> =
           (Inl (AttributeError ''parser_config''), \<lparr>self = r, trace = t0\<rparr>) \<and>
         (\<forall>d. fst (load_data e file x \<lparr>self = r, trace = []\<rparr>) \<noteq> Inr d)"
proof -
  from reader_attrs [OF assms(1)] obtain cfg where
    r: "r = [''_parser_config'' \<mapsto> PDict cfg, ''_keep_image'' \<mapsto> PBool keep_image,
             ''_prompt'' \<mapsto> PStr prompt]"
    by blast
  have 1: "\<exists>cfg. r ''_parser_config'' = Some (PDict cfg)" and 2: "r ''parser_config'' = None"
    by (simp_all add: r)
  have 3: "self \<lparr>self = r, trace = t\<rparr> ''parser_config'' = None" for t
    using 2 by simp
  show ?thesis
    using 1 2 parse_image_no_attribute [OF 3 assms(2)] load_data_no_attribute [OF 3 assms(2)]
    by (simp add: load_data_overwrite) (simp add: setattr_def)
qed

lemma plain_reader_built:
  "ImageVisionLLMReader plain_env (Some example_config) False default_prompt =
     (Inr (example_reader False), [])"
  by (simp add: ImageVisionLLMReader_def init_Some example_reader_def)

theorem stored_config_is_never_read_witness:
  "ImageVisionLLMReader plain_env (Some example_config) False default_prompt =
     (Inr (example_reader False), []) \<and>
   class_attrs plain_env ''parser_config'' = None \<and>
   example_reader False ''_parser_config'' = Some (PDict example_config) \<and>
   example_reader False ''parser_config'' = None \<and>
   parse_image plain_env \<lparr>mode = ''RGB'', pixels = [255, 0, 0]\<rparr>
       \<lparr>self = example_reader False,
        trace = [Import ''PIL'', Import ''gpt_index.img_utils'', ImageOpen ''cat.png'']\<rparr> =
     (Inl (AttributeError ''parser_config''),
      \<lparr>self = example_reader False,
       trace = [Import ''PIL'', Import ''gpt_index.img_utils'', ImageOpen ''cat.png'']\<rparr>) \<and>
   fst (load_data plain_env ''cat.png'' None \<lparr>self = example_reader False, trace = []\<rparr>) \<noteq>
     Inr (PyDocument \<lparr>doc_text = Some ''a red square'', doc_image = None, doc_extra_info = None\<rparr>)"
proof -
  have c: "class_attrs plain_env ''parser_config'' = None"
    by (simp add: plain_env_def example_env_def)
  from stored_config_is_never_read [OF plain_reader_built c,
      of "''cat.png''" None PNone "\<lparr>mode = ''RGB'', pixels = [255, 0, 0]\<rparr>"
        "[Import ''PIL'', Import ''gpt_index.img_utils'', ImageOpen ''cat.png'']"]
  show ?thesis
    by (simp add: plain_reader_built c) (simp add: example_reader_def)
qed

subsection \<open>The caption\<close>

text \<open>
  Claim C2 says that \<open>load_data\<close> returns a document with a non-empty text for every
  reader and every path that opens as a colour image. The code does not do this. Take
  a reader the constructor has built, in a class hierarchy that defines no attribute
  \<open>parser_config\<close>, and a path that opens as an image of mode \<open>RGB\<close>, with both imports
  succeeding and, for a reader that keeps the image, the serialisation returning. Then
  \<open>load_data\<close> raises \<open>AttributeError\<close> for \<open>parser_config\<close> at line 77 and returns no
  document: the constructor stored the configuration as \<open>_parser_config\<close> (line 56). The
  backend is never called.
\<close>

theorem load_data_raises_AttributeError:
  assumes "ImageVisionLLMReader e pc keep_image prompt = (Inr r, tr)"
    and "class_attrs e ''parser_config'' = None"
    and "importable e ''PIL''" and "importable e ''gpt_index.img_utils''"
    and "Image_open e file = Inr img" and "mode img = ''RGB''"
    and "keep_image \<Longrightarrow> img_2_b64 e img = Inr b"
  shows "load_data e file x \<lparr>self = r, trace = []\<rparr> =
           (Inl (AttributeError ''parser_config''),
            \<lparr>self = r,
             trace = [Import ''PIL'', Import ''gpt_index.img_utils'', ImageOpen file] @
               (if keep_image then [Img2B64 img] else [])\<rparr>)"
proof -
  from reader_attrs [OF assms(1)] obtain c where
    r: "r = [''_parser_config'' \<mapsto> PDict c, ''_keep_image'' \<mapsto> PBool keep_image,
             ''_prompt'' \<mapsto> PStr prompt]"
    by blast
  let ?s1 = "\<lparr>self = r,
      trace = [Import ''PIL'', Import ''gpt_index.img_utils'', ImageOpen file]\<rparr>"
  let ?s2 = "?s1\<lparr>trace := trace ?s1 @ (if keep_image then [Img2B64 img] else [])\<rparr>"
  have en: "encode_image e img ?s1 = (Inr (if keep_image then Some b else None), ?s2)"
    by (rule encode_image_run) (simp_all add: r assms(7))
  have "self ?s2 ''parser_config'' = None"
    by (simp add: r)
  from parse_image_no_attribute [OF this assms(2)]
  have pa: "parse_image e img ?s2 = (Inl (AttributeError ''parser_config''), ?s2)" .
  show ?thesis
    using assms(6) en pa
    by (simp add: load_data_opened [OF assms(3-5)] andthen_def)
qed

text \<open>
  The same on \<open>cat.png\<close> in \<open>plain_env\<close>, for a reader built from a complete
  configuration.
\<close>

theorem load_data_raises_AttributeError_witness:
  "ImageVisionLLMReader plain_env (Some example_config) False default_prompt =
     (Inr (example_reader False), []) \<and>
   class_attrs plain_env ''parser_config'' = None \<and>
   Image_open plain_env ''cat.png'' = Inr \<lparr>mode = ''RGB'', pixels = [255, 0, 0]\<rparr> \<and>
   load_data plain_env ''cat.png'' None \<lparr>self = example_reader False, trace = []\<rparr> =
     (Inl (AttributeError ''parser_config''),
      \<lparr>self = example_reader False,
       trace = [Import ''PIL'', Import ''gpt_index.img_utils'', ImageOpen ''cat.png'']\<rparr>)"
proof -
  have h: "class_attrs plain_env ''parser_config'' = None"
    "importable plain_env ''PIL''" "importable plain_env ''gpt_index.img_utils''"
    "Image_open plain_env ''cat.png'' = Inr \<lparr>mode = ''RGB'', pixels = [255, 0, 0]\<rparr>"
    "mode \<lparr>mode = ''RGB'', pixels = [255, 0, 0]\<rparr> = ''RGB''"
    by (simp_all add: plain_env_def example_env_def)
  have k: "False \<Longrightarrow> img_2_b64 plain_env \<lparr>mode = ''RGB'', pixels = [255, 0, 0]\<rparr> = Inr []"
    by simp
  from load_data_raises_AttributeError [OF plain_reader_built h k, where x = None]
  have "load_data plain_env ''cat.png'' None \<lparr>self = example_reader False, trace = []\<rparr> =
     (Inl (AttributeError ''parser_config''),
      \<lparr>self = example_reader False,
       trace = [Import ''PIL'', Import ''gpt_index.img_utils'', ImageOpen ''cat.png'']\<rparr>)"
    by simp
  with plain_reader_built h(1,4) show ?thesis by blast
qed

subsection \<open>The argument extra\_info\<close>

text \<open>
  Claim C7, as amended. \<open>load_data\<close> does not read \<open>extra_info\<close>: a call with any
  \<open>extra_info\<close> has the outcome, the state and the trace of the call with \<open>None\<close>, and the
  \<open>extra_info\<close> field of every returned document is \<open>None\<close>.
\<close>

theorem extra_info_is_not_read:
  "load_data e file x s = load_data e file None s \<and>
   (\<forall>v s'. load_data e file x s = (Inr v, s') \<longrightarrow>
      (\<exists>d. v = PyDocument d \<and> doc_extra_info d = None))"
proof (intro conjI allI impI)
  show "load_data e file x s = load_data e file None s"
    by (simp add: load_data_def)
next
  fix v s'
  assume "load_data e file x s = (Inr v, s')"
  from load_data_Inr [OF this] show "\<exists>d. v = PyDocument d \<and> doc_extra_info d = None"
    by (auto simp: ImageDocument_def)
qed

text \<open>
  The same on a call with metadata that returns a document.
\<close>

theorem extra_info_is_not_read_witness:
  "load_data example_env ''cat.png'' (Some [(''source'', PStr ''camera'')])
       \<lparr>self = example_reader True, trace = []\<rparr> =
     load_data example_env ''cat.png'' None \<lparr>self = example_reader True, trace = []\<rparr> \<and>
   (\<exists>d. fst (load_data example_env ''cat.png'' (Some [(''source'', PStr ''camera'')])
              \<lparr>self = example_reader True, trace = []\<rparr>) = Inr (PyDocument d) \<and>
        doc_extra_info d = None)"
  using extra_info_is_not_read [of example_env "''cat.png''" "Some [(''source'', PStr ''camera'')]"
      "\<lparr>self = example_reader True, trace = []\<rparr>"]
  by (simp add: load_data_example_cat)

text \<open>
  Claim C7 as stated fails: a call that is given the metadata \<open>source = scanner\<close> returns
  a document whose \<open>extra_info\<close> is \<open>None\<close>.
\<close>

theorem extra_info_is_dropped:
  "fst (load_data example_env ''scan.png'' (Some [(''source'', PStr ''scanner'')])
          \<lparr>self = example_reader True, trace = []\<rparr>) =
     Inr (PyDocument \<lparr>doc_text = Some ''a red square'', doc_image = Some ''UkdC'',
        doc_extra_info = None\<rparr>) \<and>
   doc_extra_info \<lparr>doc_text = Some ''a red square'', doc_image = Some ''UkdC'',
        doc_extra_info = None\<rparr> \<noteq> Some [(''source'', PStr ''scanner'')]"
  by (simp add: load_data_example_scan)

subsection \<open>A path that does not open\<close>

lemma load_data_not_opened:
  assumes "importable e ''PIL''" and "importable e ''gpt_index.img_utils''"
    and "Image_open e file = Inl err"
  shows "load_data e file x s =
           (Inl err, s\<lparr>trace := trace s @
              [Import ''PIL'', Import ''gpt_index.img_utils'', ImageOpen file]\<rparr>)"
  unfolding load_data_def
  by (simp add: andthen_step [where m = "import_stmt e m n" for m n]
      andthen_stop [where m = "load_document_image e f" for f]
      import_stmt_eq load_document_image_eq assms)

text \<open>
  Claim C8, as amended. Every call of \<open>load_data\<close>, returning or raising, leaves the
  attributes of the reader as they were, and a value it returns is a document with its
  text set. When the two imports at the head of \<open>load_data\<close> succeed and \<open>Image.open\<close>
  raises for the path, \<open>load_data\<close> raises that same error and returns no document; the
  call has then made the two imports and the attempt to open and nothing else: no
  conversion, no serialisation, no call of the captioning backend.
\<close>

theorem unopenable_image_raises_before_captioning:
  "self (snd (load_data e file x s)) = self s \<and>
   (\<forall>v. fst (load_data e file x s) = Inr v \<longrightarrow> (\<exists>d t. v = PyDocument d \<and> doc_text d = Some t)) \<and>
   (importable e ''PIL'' \<and> importable e ''gpt_index.img_utils'' \<and> Image_open e file = Inl err \<longrightarrow>
      load_data e file x s =
        (Inl err, s\<lparr>trace := trace s @
           [Import ''PIL'', Import ''gpt_index.img_utils'', ImageOpen file]\<rparr>))"
proof (intro conjI allI impI)
  show "self (snd (load_data e file x s)) = self s"
    by (rule load_data_self)
next
  fix v
  assume "fst (load_data e file x s) = Inr v"
  then obtain s' where "load_data e file x s = (Inr v, s')"
    by (cases "load_data e file x s") simp
  from load_data_Inr [OF this] show "\<exists>d t. v = PyDocument d \<and> doc_text d = Some t"
    by (auto simp: ImageDocument_def)
next
  assume "importable e ''PIL'' \<and> importable e ''gpt_index.img_utils'' \<and> Image_open e file = Inl err"
  then show "load_data e file x s =
        (Inl err, s\<lparr>trace := trace s @
           [Import ''PIL'', Import ''gpt_index.img_utils'', ImageOpen file]\<rparr>)"
    by (simp add: load_data_not_opened)
qed

text \<open>
  The same on \<open>notes.txt\<close>, which does not open.
\<close>

theorem unopenable_image_raises_before_captioning_witness:
  "importable example_env ''PIL'' \<and> importable example_env ''gpt_index.img_utils'' \<and>
   Image_open example_env ''notes.txt'' = Inl UnidentifiedImageError \<and>
   load_data example_env ''notes.txt'' None \<lparr>self = example_reader False, trace = []\<rparr> =
     (Inl UnidentifiedImageError,
      \<lparr>self = example_reader False,
       trace = [Import ''PIL'', Import ''gpt_index.img_utils'', ImageOpen ''notes.txt'']\<rparr>)"
proof -
  have h: "importable example_env ''PIL'' \<and> importable example_env ''gpt_index.img_utils'' \<and>
           Image_open example_env ''notes.txt'' = Inl UnidentifiedImageError"
    by (simp add: example_env_def)
  from unopenable_image_raises_before_captioning [of example_env "''notes.txt''" None
      "\<lparr>self = example_reader False, trace = []\<rparr>" UnidentifiedImageError] h
  show ?thesis by simp
qed

text \<open>
  Claim C8 as stated fails: where the module \<open>gpt_index.img_utils\<close> is not installed,
  a call on a path that would not open raises \<open>ModuleNotFoundError\<close> at the import, line
  64, before \<open>Image.open\<close> is called at line 67; the error is not the one of the image.
\<close>

theorem import_error_hides_image_error:
  "importable (env_without ''gpt_index.img_utils'') ''PIL'' \<and>
   Image_open (env_without ''gpt_index.img_utils'') ''notes.txt'' = Inl UnidentifiedImageError \<and>
   load_data (env_without ''gpt_index.img_utils'') ''notes.txt'' None
       \<lparr>self = example_reader False, trace = []\<rparr> =
     (Inl (ModuleNotFoundError ''gpt_index.img_utils''),
      \<lparr>self = example_reader False,
       trace = [Import ''PIL'', Import ''gpt_index.img_utils'']\<rparr>) \<and>
   ModuleNotFoundError ''gpt_index.img_utils'' \<noteq> UnidentifiedImageError"
  by (simp add: load_data_import_fails importable_env_without import_failure_env_without)
    (simp add: env_without_def example_env_def)

subsection \<open>The shape of the returned value\<close>

text \<open>
  Claim C9. Whenever \<open>load_data\<close> returns, the value is a single document, not a list,
  although the annotation of the method is \<open>List[Document]\<close>.
\<close>

theorem load_data_returns_bare_document:
  assumes "load_data e file x s = (Inr v, s')"
  shows "\<not> is_list v \<and> (\<exists>d. v = PyDocument d)"
  using load_data_Inr [OF assms] by auto

text \<open>
  The same on the call for \<open>cat.png\<close>, which returns.
\<close>

theorem load_data_returns_bare_document_witness:
  "fst (load_data example_env ''cat.png'' None \<lparr>self = example_reader True, trace = []\<rparr>) =
     Inr (PyDocument \<lparr>doc_text = Some ''a red square'', doc_image = Some ''UkdC'',
        doc_extra_info = None\<rparr>) \<and>
   \<not> is_list (PyDocument \<lparr>doc_text = Some ''a red square'', doc_image = Some ''UkdC'',
        doc_extra_info = None\<rparr>)"
  using load_data_returns_bare_document [OF load_data_example_cat [of None]]
  by (simp add: load_data_example_cat)

end
